theory Spec2Isabelle
  imports Main "HOL-Library.Sublist"
begin

section \<open>JavaScript values\<close>

text \<open>
  The loader of \<^verbatim>\<open>packages/common/src/data-converter-helpers.ts\<close> inspects values
  of unknown shape: whatever \<^verbatim>\<open>require\<close> hands back. Values are therefore modelled
  untyped. A function is identified by a number and, like an object, carries properties;
  the property list of an object or function holds every property a read can reach
  (own and inherited), the first binding of a key winning. Properties are plain data:
  reading one has no effect and reading it twice gives the same value. The built-in
  properties of the language (\<^verbatim>\<open>length\<close>, array indices, \<^verbatim>\<open>toString\<close>, ...) are not
  modelled; the program reads only \<^verbatim>\<open>payloadConverter\<close>, \<^verbatim>\<open>toPayload\<close> and
  \<^verbatim>\<open>fromPayload\<close>.
\<close>

datatype jsval =
    JUndefined
  | JNull
  | JBoolean bool
  | JNumber int
  | JString string
  | JFunction nat "(string \<times> jsval) list"
  | JArray "jsval list"
  | JObject "(string \<times> jsval) list"

text \<open>The \<^verbatim>\<open>typeof\<close> operator.\<close>

fun typeof :: "jsval \<Rightarrow> string" where
  "typeof JUndefined = ''undefined''"
| "typeof JNull = ''object''"
| "typeof (JBoolean b) = ''boolean''"
| "typeof (JNumber n) = ''number''"
| "typeof (JString s) = ''string''"
| "typeof (JFunction f ps) = ''function''"
| "typeof (JArray xs) = ''object''"
| "typeof (JObject ps) = ''object''"

text \<open>
  \<^verbatim>\<open>v[k]\<close> on a value that is neither \<^verbatim>\<open>null\<close> nor \<^verbatim>\<open>undefined\<close>: a missing
  property reads as \<^verbatim>\<open>undefined\<close>.
\<close>

fun member :: "jsval \<Rightarrow> string \<Rightarrow> jsval" where
  "member (JObject ps) k = (case map_of ps k of Some x \<Rightarrow> x | None \<Rightarrow> JUndefined)"
| "member (JFunction f ps) k = (case map_of ps k of Some x \<Rightarrow> x | None \<Rightarrow> JUndefined)"
| "member v k = JUndefined"

text \<open>
  Exceptions. \<open>ValueError msg\<close> is \<^verbatim>\<open>new ValueError(msg)\<close>; \<open>TypeError\<close> is what
  the language raises on a property read of \<^verbatim>\<open>null\<close> or \<^verbatim>\<open>undefined\<close> and on
  \<^verbatim>\<open>in\<close> applied to a value that is not an object; \<open>Thrown v\<close> is a value \<open>v\<close>
  thrown by foreign code and passing through as it is.
\<close>

datatype exn =
    ValueError string
  | TypeError
  | Thrown jsval

text \<open>\<^verbatim>\<open>v.k\<close> on any value.\<close>

fun prop_read :: "jsval \<Rightarrow> string \<Rightarrow> exn + jsval" where
  "prop_read JUndefined k = Inl TypeError"
| "prop_read JNull k = Inl TypeError"
| "prop_read v k = Inr (member v k)"

text \<open>The nullish test of the \<^verbatim>\<open>??\<close> operator.\<close>

definition nullish :: "jsval \<Rightarrow> bool" where
  "nullish v = (v = JUndefined \<or> v = JNull)"

section \<open>What the loader imports\<close>

text \<open>
  The module imports \<^verbatim>\<open>errorCode\<close>, \<^verbatim>\<open>hasOwnProperty\<close>, \<^verbatim>\<open>defaultPayloadConverter\<close>
  and \<^verbatim>\<open>defaultPayloadCodec\<close> from \<^verbatim>\<open>@temporalio/workflow-common\<close> and calls the host's
  \<^verbatim>\<open>require\<close>. None of them is defined in the sources at hand, so each is a parameter:
  \<^item> \<open>require\<close> returns the module's exports (\<open>Inr\<close>) or the value it throws (\<open>Inl\<close>);
  \<^item> \<open>errorCode\<close> has the declared result \<^verbatim>\<open>string | undefined\<close> (\<open>Inr\<close>);
  \<^item> \<open>hasOwnProperty\<close> is a boolean type guard (\<open>Inr\<close>);
  \<^item> the two defaults are fixed values.
  The two helpers are called with values of any shape (the value just caught, the exports
  just loaded), and a call may raise instead of returning: that outcome is \<open>Inl\<close>, and
  nothing in the loader catches it.
\<close>

record environment =
  require :: "string \<Rightarrow> jsval + jsval"
  errorCode :: "jsval \<Rightarrow> exn + string option"
  hasOwnProperty :: "jsval \<Rightarrow> string \<Rightarrow> exn + bool"
  defaultPayloadConverter :: jsval
  defaultPayloadCodec :: jsval

section \<open>Configuration and result\<close>

text \<open>
  Modelled from the spec: the declaration of the \<^verbatim>\<open>DataConverter\<close> configuration type is
  not in the sources. The spec's data model gives it three optional fields: a path to an
  external converter, a direct converter instance, and a codec (one instance or an ordered
  list of instances). An absent field is \<open>None\<close>.
\<close>

record DataConverter =
  payloadConverterPath :: "string option"
  payloadConverter :: "jsval option"
  payloadCodec :: "jsval option"

text \<open>The object literal that \<^verbatim>\<open>loadDataConverter\<close> returns.\<close>

record LoadedDataConverter =
  loadedPayloadConverter :: jsval
  loadedPayloadCodec :: jsval

section \<open>The loader\<close>

text \<open>
  \<^verbatim>\<open>isValidPayloadConverter\<close>: \<^verbatim>\<open>typeof\<close> is \<^verbatim>\<open>'object'\<close>, the value is not
  \<^verbatim>\<open>null\<close>, and each of \<^verbatim>\<open>['toPayload', 'fromPayload']\<close> reads as a function. The
  source's \<^verbatim>\<open>&&\<close> reads the members only once the first two tests have passed, so the
  reads are \<^const>\<open>member\<close> reads.
\<close>

definition isValidPayloadConverter :: "jsval \<Rightarrow> bool" where
  "isValidPayloadConverter PayloadConverter =
     (typeof PayloadConverter = ''object'' \<and>
      PayloadConverter \<noteq> JNull \<and>
      list_all (\<lambda>method. typeof (member PayloadConverter method) = ''function'')
        [''toPayload'', ''fromPayload''])"

definition requirePayloadConverter :: "environment \<Rightarrow> string \<Rightarrow> exn + jsval" where
  "requirePayloadConverter env path =
     (case require env path of
        Inl error \<Rightarrow>
          (case errorCode env error of
             Inl raised \<Rightarrow> Inl raised
           | Inr code \<Rightarrow>
               if code = Some ''MODULE_NOT_FOUND''
               then Inl (ValueError
                      (''Could not find a file at the specified payloadConverterPath: '' @
                       [CHR 0x27] @ path @ [CHR 0x27] @ ''.''))
               else Inl (Thrown error))
      | Inr module \<Rightarrow>
          (case hasOwnProperty env module ''payloadConverter'' of
             Inl raised \<Rightarrow> Inl raised
           | Inr has \<Rightarrow>
               if has
               then (case prop_read module ''payloadConverter'' of
                       Inl e \<Rightarrow> Inl e
                     | Inr exported \<Rightarrow>
                         if isValidPayloadConverter exported
                         then Inr exported
                         else Inl (ValueError
                                (''payloadConverter export at '' @ path @
                                 '' must be an object with toPayload and fromPayload methods'')))
               else Inl (ValueError
                      (''Module '' @ path @
                       '' does not have a `payloadConverter` named export''))))"

text \<open>
  \<^verbatim>\<open>dataConverter?.payloadConverterPath\<close> as a condition: the configuration is there,
  the field is there, and the string is not empty (the empty string is falsy).
\<close>

definition truthy_path :: "DataConverter option \<Rightarrow> string option" where
  "truthy_path dataConverter =
     (case dataConverter of
        None \<Rightarrow> None
      | Some dc \<Rightarrow>
          (case payloadConverterPath dc of
             None \<Rightarrow> None
           | Some p \<Rightarrow> if p = [] then None else Some p))"

text \<open>\<^verbatim>\<open>dataConverter?.payloadCodec ?? defaultPayloadCodec\<close>.\<close>

definition codec_or_default :: "environment \<Rightarrow> DataConverter option \<Rightarrow> jsval" where
  "codec_or_default env dataConverter =
     (case dataConverter of
        None \<Rightarrow> defaultPayloadCodec env
      | Some dc \<Rightarrow>
          (case payloadCodec dc of
             None \<Rightarrow> defaultPayloadCodec env
           | Some c \<Rightarrow> if nullish c then defaultPayloadCodec env else c))"

definition loadDataConverter ::
    "environment \<Rightarrow> DataConverter option \<Rightarrow> exn + LoadedDataConverter" where
  "loadDataConverter env dataConverter =
     (case (case truthy_path dataConverter of
              None \<Rightarrow> Inr (defaultPayloadConverter env)
            | Some p \<Rightarrow> requirePayloadConverter env p) of
        Inl e \<Rightarrow> Inl e
      | Inr converter \<Rightarrow>
          Inr \<lparr>loadedPayloadConverter = converter,
               loadedPayloadCodec = codec_or_default env dataConverter\<rparr>)"

section \<open>The spec's codec pipeline\<close>

text \<open>
  The spec's words (sections 4.3 and 4.4), not the program's: a supplied codec is "one
  instance or an ordered list of instances" and is "normalised to an ordered pipeline",
  a pipeline being an ordered sequence of codecs. A list stays as it is and a single
  instance becomes the list of that one instance. The program has no such step; this
  definition exists to be compared with what \<^const>\<open>loadDataConverter\<close> returns.
\<close>

definition spec_codec_pipeline :: "jsval \<Rightarrow> jsval" where
  "spec_codec_pipeline c = (case c of JArray cs \<Rightarrow> JArray cs | _ \<Rightarrow> JArray [c])"

section \<open>A sample host\<close>

text \<open>
  Concrete values for the parameters, used by the instances below. The host's
  \<^verbatim>\<open>require\<close> knows six modules: a good converter module, one whose export has no
  \<^verbatim>\<open>fromPayload\<close>, one that is itself a converter but exports no \<^verbatim>\<open>payloadConverter\<close>,
  one whose exports are \<^verbatim>\<open>null\<close>, one that throws an error object without a code, and
  one that executes \<^verbatim>\<open>throw null\<close>. Every other path, the empty one included, is
  reported as not found. Its \<^verbatim>\<open>errorCode\<close> reads the \<^verbatim>\<open>code\<close> property of a value
  whose \<^verbatim>\<open>typeof\<close> is \<^verbatim>\<open>'object'\<close> and returns it when it is a string; \<^verbatim>\<open>null\<close>
  passes that \<^verbatim>\<open>typeof\<close> test, and the read then raises. Its \<^verbatim>\<open>hasOwnProperty\<close> is
  the \<^verbatim>\<open>in\<close> operator, which raises on a value that is not an object.
\<close>

definition example_converter :: jsval where
  "example_converter =
     JObject [(''toPayload'', JFunction 1 []), (''fromPayload'', JFunction 2 [])]"

definition example_codec :: jsval where
  "example_codec = JObject [(''encode'', JFunction 3 []), (''decode'', JFunction 4 [])]"

definition builtin_converter :: jsval where
  "builtin_converter =
     JObject [(''toPayload'', JFunction 10 []), (''fromPayload'', JFunction 11 [])]"

definition builtin_codec :: jsval where
  "builtin_codec = JObject [(''encode'', JFunction 12 []), (''decode'', JFunction 13 [])]"

definition example_require :: "string \<Rightarrow> jsval + jsval" where
  "example_require path =
     (if path = ''./converter'' then Inr (JObject [(''payloadConverter'', example_converter)])
      else if path = ''./no-decode''
        then Inr (JObject [(''payloadConverter'', JObject [(''toPayload'', JFunction 5 [])])])
      else if path = ''./top-level'' then Inr example_converter
      else if path = ''./null-module'' then Inr JNull
      else if path = ''./throws'' then Inl (JObject [(''message'', JString ''boom'')])
      else if path = ''./throws-null'' then Inl JNull
      else Inl (JObject [(''code'', JString ''MODULE_NOT_FOUND'')]))"

definition example_errorCode :: "jsval \<Rightarrow> exn + string option" where
  "example_errorCode e =
     (if typeof e = ''object''
      then (case prop_read e ''code'' of
              Inl raised \<Rightarrow> Inl raised
            | Inr (JString s) \<Rightarrow> Inr (Some s)
            | Inr _ \<Rightarrow> Inr None)
      else Inr None)"

definition example_hasOwnProperty :: "jsval \<Rightarrow> string \<Rightarrow> exn + bool" where
  "example_hasOwnProperty v k =
     (case v of
        JObject ps \<Rightarrow> Inr (map_of ps k \<noteq> None)
      | JFunction f ps \<Rightarrow> Inr (map_of ps k \<noteq> None)
      | JArray xs \<Rightarrow> Inr False
      | _ \<Rightarrow> Inl TypeError)"

definition example_env :: environment where
  "example_env =
     \<lparr>require = example_require,
      errorCode = example_errorCode,
      hasOwnProperty = example_hasOwnProperty,
      defaultPayloadConverter = builtin_converter,
      defaultPayloadCodec = builtin_codec\<rparr>"

lemmas example_defs = example_env_def example_require_def example_errorCode_def
  example_hasOwnProperty_def example_converter_def example_codec_def builtin_converter_def
  builtin_codec_def

section \<open>Basic facts about the loader\<close>

lemma truthy_path_Some:
  "payloadConverterPath dc = Some p \<Longrightarrow> p \<noteq> [] \<Longrightarrow> truthy_path (Some dc) = Some p"
  by (simp add: truthy_path_def)

lemma truthy_path_falsy:
  "payloadConverterPath dc = None \<or> payloadConverterPath dc = Some [] \<Longrightarrow>
   truthy_path (Some dc) = None"
  by (auto simp add: truthy_path_def)

lemma truthy_path_ignores_instance:
  "truthy_path (Some (dc\<lparr>payloadConverter := x\<rparr>)) = truthy_path (Some dc)"
  by (simp add: truthy_path_def)

lemma codec_or_default_ignores_instance:
  "codec_or_default env (Some (dc\<lparr>payloadConverter := x\<rparr>)) = codec_or_default env (Some dc)"
  by (simp add: codec_or_default_def)

lemma loadDataConverter_no_path:
  "truthy_path dco = None \<Longrightarrow>
   loadDataConverter env dco =
     Inr \<lparr>loadedPayloadConverter = defaultPayloadConverter env,
          loadedPayloadCodec = codec_or_default env dco\<rparr>"
  by (simp add: loadDataConverter_def)

lemma loadDataConverter_path_error:
  "truthy_path dco = Some p \<Longrightarrow> requirePayloadConverter env p = Inl e \<Longrightarrow>
   loadDataConverter env dco = Inl e"
  by (simp add: loadDataConverter_def)

lemma loadDataConverter_path_ok:
  "truthy_path dco = Some p \<Longrightarrow> requirePayloadConverter env p = Inr c \<Longrightarrow>
   loadDataConverter env dco =
     Inr \<lparr>loadedPayloadConverter = c, loadedPayloadCodec = codec_or_default env dco\<rparr>"
  by (simp add: loadDataConverter_def)

lemma requirePayloadConverter_not_found:
  "require env p = Inl err \<Longrightarrow> errorCode env err = Inr (Some ''MODULE_NOT_FOUND'') \<Longrightarrow>
   requirePayloadConverter env p =
     Inl (ValueError (''Could not find a file at the specified payloadConverterPath: '' @
                      [CHR 0x27] @ p @ [CHR 0x27] @ ''.''))"
  by (simp add: requirePayloadConverter_def)

lemma requirePayloadConverter_rethrow:
  "require env p = Inl err \<Longrightarrow> errorCode env err = Inr code \<Longrightarrow>
   code \<noteq> Some ''MODULE_NOT_FOUND'' \<Longrightarrow>
   requirePayloadConverter env p = Inl (Thrown err)"
  by (simp add: requirePayloadConverter_def)

lemma requirePayloadConverter_errorCode_raises:
  "require env p = Inl err \<Longrightarrow> errorCode env err = Inl raised \<Longrightarrow>
   requirePayloadConverter env p = Inl raised"
  by (simp add: requirePayloadConverter_def)

lemma requirePayloadConverter_require_fails:
  "require env p = Inl err \<Longrightarrow> \<exists>e. requirePayloadConverter env p = Inl e"
  by (simp add: requirePayloadConverter_def split: sum.split)

lemma requirePayloadConverter_hasOwnProperty_raises:
  "require env p = Inr m \<Longrightarrow> hasOwnProperty env m ''payloadConverter'' = Inl raised \<Longrightarrow>
   requirePayloadConverter env p = Inl raised"
  by (simp add: requirePayloadConverter_def)

lemma requirePayloadConverter_export:
  "require env p = Inr m \<Longrightarrow> hasOwnProperty env m ''payloadConverter'' = Inr True \<Longrightarrow>
   prop_read m ''payloadConverter'' = Inr x \<Longrightarrow>
   requirePayloadConverter env p =
     (if isValidPayloadConverter x then Inr x
      else Inl (ValueError (''payloadConverter export at '' @ p @
                  '' must be an object with toPayload and fromPayload methods'')))"
  by (simp add: requirePayloadConverter_def)

lemma requirePayloadConverter_no_export:
  "require env p = Inr m \<Longrightarrow> hasOwnProperty env m ''payloadConverter'' = Inr False \<Longrightarrow>
   requirePayloadConverter env p =
     Inl (ValueError (''Module '' @ p @ '' does not have a `payloadConverter` named export''))"
  by (simp add: requirePayloadConverter_def)

lemma isValidPayloadConverter_iff:
  "isValidPayloadConverter x \<longleftrightarrow>
     typeof x = ''object'' \<and> x \<noteq> JNull
     \<and> typeof (member x ''toPayload'') = ''function''
     \<and> typeof (member x ''fromPayload'') = ''function''"
  by (simp add: isValidPayloadConverter_def)

lemma shape_message_names_methods:
  "sublist ''toPayload''
     (''payloadConverter export at '' @ p @
      '' must be an object with toPayload and fromPayload methods'')"
  "sublist ''fromPayload''
     (''payloadConverter export at '' @ p @
      '' must be an object with toPayload and fromPayload methods'')"
proof -
  let ?msg = "''payloadConverter export at '' @ p @
      '' must be an object with toPayload and fromPayload methods''"
  have "?msg = (''payloadConverter export at '' @ p @ '' must be an object with '') @
                 ''toPayload'' @ '' and fromPayload methods''"
    by simp
  then show "sublist ''toPayload'' ?msg"
    unfolding sublist_def by blast
  have "?msg = (''payloadConverter export at '' @ p @
                 '' must be an object with toPayload and '') @
                 ''fromPayload'' @ '' methods''"
    by simp
  then show "sublist ''fromPayload'' ?msg"
    unfolding sublist_def by blast
qed

section \<open>The default converter and the direct instance\<close>

text \<open>
  Claim C1, as the spec states it: when a converter instance is supplied directly and no
  path is supplied, the loaded converter is that instance. The program does not do this.
  In the sample host, a configuration carrying \<open>example_converter\<close> as its direct
  instance loads the built-in converter, which is a different value.
\<close>

theorem direct_instance_returned_counterexample:
  "loadDataConverter example_env
     (Some \<lparr>payloadConverterPath = None, payloadConverter = Some example_converter,
            payloadCodec = None\<rparr>) =
     Inr \<lparr>loadedPayloadConverter = builtin_converter, loadedPayloadCodec = builtin_codec\<rparr>
   \<and> builtin_converter \<noteq> example_converter"
  by (simp add: loadDataConverter_def truthy_path_def codec_or_default_def example_defs)

text \<open>
  Claim C1, amended: when a converter instance is supplied directly and no path is
  supplied, \<^verbatim>\<open>loadDataConverter\<close> returns the built-in default converter; the direct
  instance is never read, so replacing or removing it leaves the result unchanged
  (whatever the path).
\<close>

theorem direct_instance_is_not_read:
  assumes "payloadConverterPath dc = None" and "payloadConverter dc = Some inst"
  shows "loadDataConverter env (Some dc) =
           Inr \<lparr>loadedPayloadConverter = defaultPayloadConverter env,
                loadedPayloadCodec = codec_or_default env (Some dc)\<rparr>
         \<and> loadDataConverter env (Some (dc\<lparr>payloadConverter := other\<rparr>)) =
             loadDataConverter env (Some dc)"
proof -
  have "truthy_path (Some dc) = None"
    using assms(1) by (simp add: truthy_path_falsy)
  then have first: "loadDataConverter env (Some dc) =
           Inr \<lparr>loadedPayloadConverter = defaultPayloadConverter env,
                loadedPayloadCodec = codec_or_default env (Some dc)\<rparr>"
    by (rule loadDataConverter_no_path)
  have "loadDataConverter env (Some (dc\<lparr>payloadConverter := other\<rparr>)) =
             loadDataConverter env (Some dc)"
    by (simp add: loadDataConverter_def truthy_path_ignores_instance
        codec_or_default_ignores_instance split: sum.split)
  with first show ?thesis by simp
qed

text \<open>
  Instance of C1 (amended) in the sample host: with \<open>example_converter\<close> as direct
  instance the built-in converter is loaded, and dropping the instance changes nothing.
\<close>

theorem direct_instance_is_not_read_witness:
  "loadDataConverter example_env
     (Some \<lparr>payloadConverterPath = None, payloadConverter = Some example_converter,
            payloadCodec = None\<rparr>) =
     Inr \<lparr>loadedPayloadConverter = builtin_converter, loadedPayloadCodec = builtin_codec\<rparr>
   \<and> loadDataConverter example_env
     (Some \<lparr>payloadConverterPath = None, payloadConverter = None, payloadCodec = None\<rparr>) =
     loadDataConverter example_env
     (Some \<lparr>payloadConverterPath = None, payloadConverter = Some example_converter,
            payloadCodec = None\<rparr>)"
  using direct_instance_is_not_read [where dc = "\<lparr>payloadConverterPath = None,
      payloadConverter = Some example_converter, payloadCodec = None\<rparr>"
      and inst = example_converter and env = example_env and other = None]
  by (simp add: codec_or_default_def example_env_def)

text \<open>
  Claim C3: with no configuration at all, or with a configuration that overrides nothing,
  \<^verbatim>\<open>loadDataConverter\<close> returns the default payload converter paired with the default
  payload codec.
\<close>

theorem no_override_loads_defaults:
  "loadDataConverter env None =
     Inr \<lparr>loadedPayloadConverter = defaultPayloadConverter env,
          loadedPayloadCodec = defaultPayloadCodec env\<rparr>
   \<and> loadDataConverter env
       (Some \<lparr>payloadConverterPath = None, payloadConverter = None, payloadCodec = None\<rparr>) =
     Inr \<lparr>loadedPayloadConverter = defaultPayloadConverter env,
          loadedPayloadCodec = defaultPayloadCodec env\<rparr>"
  by (simp add: loadDataConverter_def truthy_path_def codec_or_default_def)

text \<open>Instance of C3 in the sample host.\<close>

theorem no_override_loads_defaults_witness:
  "loadDataConverter example_env None =
     Inr \<lparr>loadedPayloadConverter = builtin_converter, loadedPayloadCodec = builtin_codec\<rparr>
   \<and> loadDataConverter example_env
       (Some \<lparr>payloadConverterPath = None, payloadConverter = None, payloadCodec = None\<rparr>) =
     Inr \<lparr>loadedPayloadConverter = builtin_converter, loadedPayloadCodec = builtin_codec\<rparr>"
  using no_override_loads_defaults [where env = example_env]
  by (simp add: example_env_def)

text \<open>
  Claim C9: a configuration whose path is the empty string, or is missing, is handled as
  one without a path. The result is the default converter, it is not an error, and it is
  the same whatever \<^verbatim>\<open>require\<close> would do: no module resolution takes place.
\<close>

theorem falsy_path_is_absent:
  assumes "payloadConverterPath dc = Some [] \<or> payloadConverterPath dc = None"
  shows "loadDataConverter (env\<lparr>require := r\<rparr>) (Some dc) =
           Inr \<lparr>loadedPayloadConverter = defaultPayloadConverter env,
                loadedPayloadCodec = codec_or_default env (Some dc)\<rparr>"
proof -
  have "truthy_path (Some dc) = None"
    using assms by (auto simp add: truthy_path_def)
  then have "loadDataConverter (env\<lparr>require := r\<rparr>) (Some dc) =
     Inr \<lparr>loadedPayloadConverter = defaultPayloadConverter (env\<lparr>require := r\<rparr>),
          loadedPayloadCodec = codec_or_default (env\<lparr>require := r\<rparr>) (Some dc)\<rparr>"
    by (rule loadDataConverter_no_path)
  then show ?thesis
    by (simp add: codec_or_default_def split: option.split)
qed

text \<open>
  Instance of C9: the empty path in a host whose \<^verbatim>\<open>require\<close> always throws still
  loads the built-in converter.
\<close>

theorem falsy_path_is_absent_witness:
  "loadDataConverter (example_env\<lparr>require := \<lambda>p. Inl JUndefined\<rparr>)
     (Some \<lparr>payloadConverterPath = Some [], payloadConverter = None, payloadCodec = None\<rparr>) =
     Inr \<lparr>loadedPayloadConverter = builtin_converter, loadedPayloadCodec = builtin_codec\<rparr>"
  using falsy_path_is_absent [where env = example_env and r = "\<lambda>p. Inl JUndefined"
      and dc = "\<lparr>payloadConverterPath = Some [], payloadConverter = None,
                  payloadCodec = None\<rparr>"]
  by (simp add: codec_or_default_def example_env_def)

section \<open>Failures of an explicit path\<close>

text \<open>
  Claim C2, as the spec states it: a module that cannot be found and an export of the wrong
  shape raise errors of two distinct types. The program does not do this. In the sample
  host both failures are a \<open>ValueError\<close>: the path \<^verbatim>\<open>./missing\<close> is not found, and
  the export of \<^verbatim>\<open>./no-decode\<close> has no \<^verbatim>\<open>fromPayload\<close>.
\<close>

theorem distinct_error_types_counterexample:
  "requirePayloadConverter example_env ''./missing'' =
     Inl (ValueError
       ''Could not find a file at the specified payloadConverterPath: './missing'.'')
   \<and> requirePayloadConverter example_env ''./no-decode'' =
     Inl (ValueError
       ''payloadConverter export at ./no-decode must be an object with toPayload and fromPayload methods'')"
  by (simp add: requirePayloadConverter_def isValidPayloadConverter_def example_defs)

text \<open>
  Claim C2, amended: a module that cannot be found and an export of the wrong shape both
  raise a \<open>ValueError\<close>, the same error type; the two conditions are told apart by
  the message, which is never the same for the two.
\<close>

theorem not_found_and_wrong_shape_share_ValueError:
  assumes "require env p = Inl err"
    and "errorCode env err = Inr (Some ''MODULE_NOT_FOUND'')"
    and "require env q = Inr m" and "hasOwnProperty env m ''payloadConverter'' = Inr True"
    and "prop_read m ''payloadConverter'' = Inr x" and "\<not> isValidPayloadConverter x"
  shows "\<exists>m1 m2. requirePayloadConverter env p = Inl (ValueError m1)
           \<and> requirePayloadConverter env q = Inl (ValueError m2) \<and> m1 \<noteq> m2"
  using requirePayloadConverter_not_found [OF assms(1,2)]
    requirePayloadConverter_export [OF assms(3,4,5)] assms(6)
  by simp

text \<open>Instance of C2 (amended) at the two paths of the sample host.\<close>

theorem not_found_and_wrong_shape_share_ValueError_witness:
  "\<exists>m1 m2. requirePayloadConverter example_env ''./missing'' = Inl (ValueError m1)
     \<and> requirePayloadConverter example_env ''./no-decode'' = Inl (ValueError m2) \<and> m1 \<noteq> m2"
  using not_found_and_wrong_shape_share_ValueError
      [where env = example_env and p = "''./missing''" and q = "''./no-decode''"
      and err = "JObject [(''code'', JString ''MODULE_NOT_FOUND'')]"
      and m = "JObject [(''payloadConverter'', JObject [(''toPayload'', JFunction 5 [])])]"
      and x = "JObject [(''toPayload'', JFunction 5 [])]"]
  by (simp add: isValidPayloadConverter_def example_defs)

text \<open>
  Claim C4, as the spec states it: whenever a path is supplied and its module fails to
  resolve, \<^verbatim>\<open>loadDataConverter\<close> raises an error and does not fall back to the
  default converter. The program does not do this for the empty path. In the sample host
  the empty path is not found, so resolving it fails, yet the configuration that supplies
  it loads the built-in converter without any error.
\<close>

theorem empty_path_falls_back_counterexample:
  "payloadConverterPath
     \<lparr>payloadConverterPath = Some [], payloadConverter = None, payloadCodec = None\<rparr> = Some []
   \<and> require example_env [] = Inl (JObject [(''code'', JString ''MODULE_NOT_FOUND'')])
   \<and> requirePayloadConverter example_env [] =
       Inl (ValueError
         (''Could not find a file at the specified payloadConverterPath: '' @
          [CHR 0x27] @ [] @ [CHR 0x27] @ ''.''))
   \<and> loadDataConverter example_env
       (Some \<lparr>payloadConverterPath = Some [], payloadConverter = None, payloadCodec = None\<rparr>) =
       Inr \<lparr>loadedPayloadConverter = builtin_converter, loadedPayloadCodec = builtin_codec\<rparr>"
  by (simp add: loadDataConverter_def truthy_path_def codec_or_default_def
      requirePayloadConverter_def example_defs)

text \<open>
  Claim C4, amended: when a non-empty path is supplied and the module does not load, or
  the test for its \<^verbatim>\<open>payloadConverter\<close> export does not succeed, or the export has
  the wrong shape, \<^verbatim>\<open>loadDataConverter\<close> raises the error that the resolution raised;
  it returns no \<^verbatim>\<open>LoadedDataConverter\<close> at all, so none with the default converter.
\<close>

theorem failed_path_never_falls_back:
  assumes "payloadConverterPath dc = Some p" and "p \<noteq> []"
    and "(\<exists>err. require env p = Inl err)
         \<or> (\<exists>m. require env p = Inr m
               \<and> (hasOwnProperty env m ''payloadConverter'' \<noteq> Inr True
                    \<or> (\<exists>x. prop_read m ''payloadConverter'' = Inr x
                             \<and> \<not> isValidPayloadConverter x)))"
  shows "\<exists>e. requirePayloadConverter env p = Inl e \<and> loadDataConverter env (Some dc) = Inl e"
proof -
  have "\<exists>e. requirePayloadConverter env p = Inl e"
  proof -
    consider (throws) err where "require env p = Inl err"
      | (guard) m where "require env p = Inr m"
          and "hasOwnProperty env m ''payloadConverter'' \<noteq> Inr True"
      | (shape) m x where "require env p = Inr m"
          and "hasOwnProperty env m ''payloadConverter'' = Inr True"
          and "prop_read m ''payloadConverter'' = Inr x" and "\<not> isValidPayloadConverter x"
      using assms(3) by blast
    then show ?thesis
    proof cases
      case throws
      then show ?thesis by (rule requirePayloadConverter_require_fails)
    next
      case guard
      then show ?thesis
        by (cases "hasOwnProperty env m ''payloadConverter''")
          (simp_all add: requirePayloadConverter_def)
    next
      case shape
      then show ?thesis
        by (simp add: requirePayloadConverter_export)
    qed
  qed
  then obtain e where e: "requirePayloadConverter env p = Inl e" ..
  with truthy_path_Some [OF assms(1,2)] have "loadDataConverter env (Some dc) = Inl e"
    by (rule loadDataConverter_path_error)
  with e show ?thesis by blast
qed

text \<open>
  Instance of C4 (amended): the path \<^verbatim>\<open>./no-decode\<close> of the sample host fails
  validation.
\<close>

theorem failed_path_never_falls_back_witness:
  "\<exists>e. requirePayloadConverter example_env ''./no-decode'' = Inl e
     \<and> loadDataConverter example_env
          (Some \<lparr>payloadConverterPath = Some ''./no-decode'', payloadConverter = None,
                 payloadCodec = None\<rparr>) = Inl e"
  using failed_path_never_falls_back
      [where dc = "\<lparr>payloadConverterPath = Some ''./no-decode'', payloadConverter = None,
            payloadCodec = None\<rparr>" and p = "''./no-decode''" and env = example_env]
  by (simp add: isValidPayloadConverter_def example_defs)

text \<open>
  Claim C5: for a module that resolves and has a \<^verbatim>\<open>payloadConverter\<close> export, loading
  returns that export exactly when it is an object, not \<^verbatim>\<open>null\<close>, whose
  \<^verbatim>\<open>toPayload\<close> and \<^verbatim>\<open>fromPayload\<close> members are functions; in every other case it
  raises the error about the export's shape, whose message names both methods, so in
  particular the one that is missing.
\<close>

theorem export_accepted_iff_structurally_valid:
  assumes "require env p = Inr m" and "hasOwnProperty env m ''payloadConverter'' = Inr True"
    and "prop_read m ''payloadConverter'' = Inr x"
  shows "(requirePayloadConverter env p = Inr x \<longleftrightarrow>
            typeof x = ''object'' \<and> x \<noteq> JNull
            \<and> typeof (member x ''toPayload'') = ''function''
            \<and> typeof (member x ''fromPayload'') = ''function'')
       \<and> (requirePayloadConverter env p \<noteq> Inr x \<longrightarrow>
            requirePayloadConverter env p =
              Inl (ValueError (''payloadConverter export at '' @ p @
                     '' must be an object with toPayload and fromPayload methods'')))
       \<and> sublist ''toPayload''
            (''payloadConverter export at '' @ p @
             '' must be an object with toPayload and fromPayload methods'')
       \<and> sublist ''fromPayload''
            (''payloadConverter export at '' @ p @
             '' must be an object with toPayload and fromPayload methods'')"
proof -
  have r: "requirePayloadConverter env p =
     (if isValidPayloadConverter x then Inr x
      else Inl (ValueError (''payloadConverter export at '' @ p @
                  '' must be an object with toPayload and fromPayload methods'')))"
    using assms by (rule requirePayloadConverter_export)
  have a: "requirePayloadConverter env p = Inr x \<longleftrightarrow>
            typeof x = ''object'' \<and> x \<noteq> JNull
            \<and> typeof (member x ''toPayload'') = ''function''
            \<and> typeof (member x ''fromPayload'') = ''function''"
    unfolding r isValidPayloadConverter_iff [symmetric] by simp
  have b: "requirePayloadConverter env p \<noteq> Inr x \<longrightarrow>
            requirePayloadConverter env p =
              Inl (ValueError (''payloadConverter export at '' @ p @
                     '' must be an object with toPayload and fromPayload methods''))"
    unfolding r by simp
  from a b shape_message_names_methods [of p] show ?thesis
    by blast
qed

text \<open>
  Instance of C5 in the sample host: the export of \<^verbatim>\<open>./converter\<close> is returned, the
  export of \<^verbatim>\<open>./no-decode\<close>, which lacks \<^verbatim>\<open>fromPayload\<close>, is rejected.
\<close>

theorem export_accepted_iff_structurally_valid_witness:
  "requirePayloadConverter example_env ''./converter'' = Inr example_converter
   \<and> requirePayloadConverter example_env ''./no-decode'' =
       Inl (ValueError ''payloadConverter export at ./no-decode must be an object with toPayload and fromPayload methods'')"
  using export_accepted_iff_structurally_valid
      [where env = example_env and p = "''./converter''"
      and m = "JObject [(''payloadConverter'', example_converter)]" and x = example_converter]
    export_accepted_iff_structurally_valid
      [where env = example_env and p = "''./no-decode''"
      and m = "JObject [(''payloadConverter'', JObject [(''toPayload'', JFunction 5 [])])]"
      and x = "JObject [(''toPayload'', JFunction 5 [])]"]
  by (simp add: example_defs)

text \<open>
  Claim C6: when the module at the given path cannot be found, the error raised is a
  \<open>ValueError\<close> whose message contains the path exactly as given, between single
  quotes; for a non-empty path the same error leaves \<^verbatim>\<open>loadDataConverter\<close>.
\<close>

theorem not_found_message_contains_path:
  assumes "require env p = Inl err"
    and "errorCode env err = Inr (Some ''MODULE_NOT_FOUND'')"
  shows "\<exists>msg. requirePayloadConverter env p = Inl (ValueError msg)
           \<and> msg = ''Could not find a file at the specified payloadConverterPath: '' @
                     [CHR 0x27] @ p @ [CHR 0x27] @ ''.''
           \<and> sublist p msg
           \<and> (p \<noteq> [] \<longrightarrow> payloadConverterPath dc = Some p \<longrightarrow>
                loadDataConverter env (Some dc) = Inl (ValueError msg))"
proof -
  let ?msg = "''Could not find a file at the specified payloadConverterPath: '' @
                     [CHR 0x27] @ p @ [CHR 0x27] @ ''.''"
  have r: "requirePayloadConverter env p = Inl (ValueError ?msg)"
    using assms by (rule requirePayloadConverter_not_found)
  have "?msg = (''Could not find a file at the specified payloadConverterPath: '' @
                     [CHR 0x27]) @ p @ ([CHR 0x27] @ ''.'')"
    by simp
  then have s: "sublist p ?msg"
    unfolding sublist_def by blast
  have l: "p \<noteq> [] \<longrightarrow> payloadConverterPath dc = Some p \<longrightarrow>
                loadDataConverter env (Some dc) = Inl (ValueError ?msg)"
    using r by (simp add: truthy_path_Some loadDataConverter_path_error)
  from r s l show ?thesis by blast
qed

text \<open>Instance of C6: the path \<^verbatim>\<open>./missing\<close> of the sample host.\<close>

theorem not_found_message_contains_path_witness:
  "requirePayloadConverter example_env ''./missing'' =
     Inl (ValueError
       ''Could not find a file at the specified payloadConverterPath: './missing'.'')
   \<and> loadDataConverter example_env
     (Some \<lparr>payloadConverterPath = Some ''./missing'', payloadConverter = None,
            payloadCodec = None\<rparr>) =
     Inl (ValueError
       ''Could not find a file at the specified payloadConverterPath: './missing'.'')"
  using not_found_message_contains_path [where env = example_env and p = "''./missing''"
      and err = "JObject [(''code'', JString ''MODULE_NOT_FOUND'')]"
      and dc = "\<lparr>payloadConverterPath = Some ''./missing'', payloadConverter = None,
            payloadCodec = None\<rparr>"]
  by (simp add: example_defs)

text \<open>
  Claim C8: a module that resolves is used only if the test for a \<^verbatim>\<open>payloadConverter\<close>
  named export says yes. In every other case loading fails with an error, and when the
  test says no that error is the \<open>ValueError\<close> about the missing named export,
  whatever else the module holds, also when the module itself has callable
  \<^verbatim>\<open>toPayload\<close> and \<^verbatim>\<open>fromPayload\<close> members.
\<close>

theorem named_export_required:
  assumes "require env p = Inr m"
    and "hasOwnProperty env m ''payloadConverter'' \<noteq> Inr True"
  shows "(\<exists>e. requirePayloadConverter env p = Inl e
            \<and> (p \<noteq> [] \<longrightarrow> payloadConverterPath dc = Some p \<longrightarrow>
                 loadDataConverter env (Some dc) = Inl e))
       \<and> (hasOwnProperty env m ''payloadConverter'' = Inr False \<longrightarrow>
            requirePayloadConverter env p =
              Inl (ValueError (''Module '' @ p @
                     '' does not have a `payloadConverter` named export''))
            \<and> (p \<noteq> [] \<longrightarrow> payloadConverterPath dc = Some p \<longrightarrow>
                 loadDataConverter env (Some dc) =
                   Inl (ValueError (''Module '' @ p @
                          '' does not have a `payloadConverter` named export''))))"
proof -
  have fails: "\<exists>e. requirePayloadConverter env p = Inl e"
    using assms
    by (cases "hasOwnProperty env m ''payloadConverter''")
      (simp_all add: requirePayloadConverter_def)
  have load: "p \<noteq> [] \<longrightarrow> payloadConverterPath dc = Some p \<longrightarrow>
      loadDataConverter env (Some dc) = Inl e"
    if "requirePayloadConverter env p = Inl e" for e
    using that by (simp add: truthy_path_Some loadDataConverter_path_error)
  have no: "requirePayloadConverter env p =
      Inl (ValueError (''Module '' @ p @ '' does not have a `payloadConverter` named export''))"
    if "hasOwnProperty env m ''payloadConverter'' = Inr False"
    using assms(1) that by (rule requirePayloadConverter_no_export)
  from fails load no show ?thesis
    by blast
qed

text \<open>
  Instance of C8: the module \<^verbatim>\<open>./top-level\<close> of the sample host is itself a valid
  converter and is rejected all the same; the module \<^verbatim>\<open>./null-module\<close>, on which the
  test for the named export raises, fails to load too.
\<close>

theorem named_export_required_witness:
  "isValidPayloadConverter example_converter
   \<and> require example_env ''./top-level'' = Inr example_converter
   \<and> requirePayloadConverter example_env ''./top-level'' =
       Inl (ValueError ''Module ./top-level does not have a `payloadConverter` named export'')
   \<and> loadDataConverter example_env
       (Some \<lparr>payloadConverterPath = Some ''./top-level'', payloadConverter = None,
              payloadCodec = None\<rparr>) =
       Inl (ValueError ''Module ./top-level does not have a `payloadConverter` named export'')
   \<and> (\<exists>e. requirePayloadConverter example_env ''./null-module'' = Inl e
         \<and> loadDataConverter example_env
             (Some \<lparr>payloadConverterPath = Some ''./null-module'', payloadConverter = None,
                    payloadCodec = None\<rparr>) = Inl e)"
  using named_export_required [where env = example_env and p = "''./top-level''"
      and m = example_converter
      and dc = "\<lparr>payloadConverterPath = Some ''./top-level'', payloadConverter = None,
              payloadCodec = None\<rparr>"]
    named_export_required [where env = example_env and p = "''./null-module''"
      and m = JNull
      and dc = "\<lparr>payloadConverterPath = Some ''./null-module'', payloadConverter = None,
              payloadCodec = None\<rparr>"]
  by (simp add: isValidPayloadConverter_def example_defs)

text \<open>
  Claim C10: a value thrown by \<^verbatim>\<open>require\<close> whose error code is not
  \<^verbatim>\<open>MODULE_NOT_FOUND\<close> leaves \<^verbatim>\<open>loadDataConverter\<close> unchanged. The catch block
  ends in \<^verbatim>\<open>throw error\<close> and does this whenever \<^verbatim>\<open>errorCode\<close> returns (lemma
  \<open>requirePayloadConverter_rethrow\<close>), but it asks \<^verbatim>\<open>errorCode\<close> first, with nothing
  around the call. For the module of the sample host that executes \<^verbatim>\<open>throw null\<close>,
  \<^verbatim>\<open>errorCode\<close> raises a \<open>TypeError\<close>, and that is what leaves the loader: the
  thrown \<^verbatim>\<open>null\<close> is lost. A thrown error object without a code, from the module
  \<^verbatim>\<open>./throws\<close>, does pass through.
\<close>

theorem thrown_null_is_not_propagated:
  "require example_env ''./throws-null'' = Inl JNull
   \<and> errorCode example_env JNull = Inl TypeError
   \<and> requirePayloadConverter example_env ''./throws-null'' = Inl TypeError
   \<and> loadDataConverter example_env
       (Some \<lparr>payloadConverterPath = Some ''./throws-null'', payloadConverter = None,
              payloadCodec = None\<rparr>) = Inl TypeError
   \<and> loadDataConverter example_env
       (Some \<lparr>payloadConverterPath = Some ''./throws'', payloadConverter = None,
              payloadCodec = None\<rparr>) =
       Inl (Thrown (JObject [(''message'', JString ''boom'')]))"
  by (simp add: loadDataConverter_def truthy_path_def requirePayloadConverter_def
      example_defs)

section \<open>The codec\<close>

text \<open>
  Claim C7, as the spec states it: a supplied codec, one instance or a list, is
  normalised into an ordered pipeline. The program does not do this. In the sample host
  the single instance \<open>example_codec\<close> is returned as it was supplied, which is not
  the pipeline of that one instance.
\<close>

theorem codec_normalised_counterexample:
  "loadDataConverter example_env
     (Some \<lparr>payloadConverterPath = None, payloadConverter = None,
            payloadCodec = Some example_codec\<rparr>) =
     Inr \<lparr>loadedPayloadConverter = builtin_converter, loadedPayloadCodec = example_codec\<rparr>
   \<and> example_codec \<noteq> spec_codec_pipeline example_codec"
  by (simp add: loadDataConverter_def truthy_path_def codec_or_default_def nullish_def
      spec_codec_pipeline_def example_defs)

text \<open>
  Claim C7, amended: whenever \<^verbatim>\<open>loadDataConverter\<close> returns, the codec it returns is
  the supplied \<^verbatim>\<open>payloadCodec\<close> value itself, unchanged, unless that value is missing
  (or \<^verbatim>\<open>null\<close> or \<^verbatim>\<open>undefined\<close>), in which case it is the default codec.
\<close>

theorem codec_returned_as_supplied:
  assumes "loadDataConverter env dco = Inr ldc"
  shows "(dco = None \<longrightarrow> loadedPayloadCodec ldc = defaultPayloadCodec env)
       \<and> (\<forall>dc. dco = Some dc \<longrightarrow> payloadCodec dc = None \<longrightarrow>
             loadedPayloadCodec ldc = defaultPayloadCodec env)
       \<and> (\<forall>dc c. dco = Some dc \<longrightarrow> payloadCodec dc = Some c \<longrightarrow>
             loadedPayloadCodec ldc = (if nullish c then defaultPayloadCodec env else c))"
proof -
  have "loadedPayloadCodec ldc = codec_or_default env dco"
    using assms by (auto simp add: loadDataConverter_def split: sum.splits)
  then show ?thesis
    by (simp add: codec_or_default_def)
qed

text \<open>
  Instance of C7 (amended): the sample host loads a configuration that supplies
  \<open>example_codec\<close>, and the loaded codec is \<open>example_codec\<close>.
\<close>

theorem codec_returned_as_supplied_witness:
  "loadDataConverter example_env
     (Some \<lparr>payloadConverterPath = None, payloadConverter = None,
            payloadCodec = Some example_codec\<rparr>) =
     Inr \<lparr>loadedPayloadConverter = builtin_converter, loadedPayloadCodec = example_codec\<rparr>
   \<and> loadedPayloadCodec
       \<lparr>loadedPayloadConverter = builtin_converter, loadedPayloadCodec = example_codec\<rparr> =
     (if nullish example_codec then defaultPayloadCodec example_env else example_codec)"
  using codec_returned_as_supplied [where env = example_env
      and dco = "Some \<lparr>payloadConverterPath = None, payloadConverter = None,
            payloadCodec = Some example_codec\<rparr>"
      and ldc = "\<lparr>loadedPayloadConverter = builtin_converter,
            loadedPayloadCodec = example_codec\<rparr>"]
  by (simp add: loadDataConverter_def truthy_path_def codec_or_default_def nullish_def
      example_defs)

end
